theory Spec2Isabelle
  imports Main
begin

section \<open>Data model of the device table (interface DeviceData)\<close>

text \<open>
  The front end receives the device view as JSON. A field typed \<open>string\<close> is a
  \<^typ>\<open>string\<close>; a field declared optional (\<open>previous?\<close>, \<open>lighting_history?\<close>) or
  read through optional chaining (\<open>health_data?.\<close>) is an \<open>option\<close>, with \<open>None\<close> for
  JavaScript's \<open>undefined\<close>.
\<close>

record lighting_entry =
  state :: string
  timestamp :: string

record crash =
  process :: string
  timestamp :: string
  content :: string

record network_data =
  ip :: string
  state :: string
  rssi :: string
  devicetype :: string

record health_data =
  deviceName :: string
  reason :: string
  overallHealthRate :: string

record snapshot =
  network_data :: network_data
  health_data :: "health_data option"
  capture_timestamp :: string

record device_data =
  id_num :: int
  device_id :: string
  current :: snapshot
  previous :: "snapshot option"
  related_crashes :: "crash list option"
  lighting_history :: "lighting_entry list option"
  system_stats :: "string option"
  wifi_data :: "string option"

section \<open>JavaScript values used by the table\<close>

text \<open>Truthiness of a value that is a string or \<open>undefined\<close>: only a non-empty string is truthy.\<close>

definition truthy :: "string option \<Rightarrow> bool" where
  "truthy v = (case v of None \<Rightarrow> False | Some s \<Rightarrow> s \<noteq> [])"

text \<open>A template literal \<open>`${v}`\<close> prints \<open>undefined\<close> for an undefined value.\<close>

definition template :: "string option \<Rightarrow> string" where
  "template v = (case v of None \<Rightarrow> ''undefined'' | Some s \<Rightarrow> s)"

text \<open>\<open>a && b\<close> on such values: \<open>a\<close> itself when it is falsy, \<open>b\<close> otherwise.\<close>

definition js_and :: "string option \<Rightarrow> string option \<Rightarrow> string option" where
  "js_and a b = (if truthy a then b else a)"

section \<open>getDiffStyle and renderDiffValue\<close>

text \<open>The object returned by \<open>getDiffStyle\<close>: \<open>{}\<close> has neither property.\<close>

record diff_style =
  backgroundColor :: "string option"
  position :: "string option"

definition getDiffStyle :: "string option \<Rightarrow> string option \<Rightarrow> diff_style" where
  "getDiffStyle cur prev =
     (if \<not> truthy prev \<or> cur = prev
      then \<lparr>backgroundColor = None, position = None\<rparr>
      else \<lparr>backgroundColor =
              Some (if cur = Some ''found'' then ''bg-green-100'' else ''bg-red-100''),
            position = Some ''relative''\<rparr>)"

text \<open>
  What \<open>renderDiffValue\<close> returns: the plain string, or the group element whose first
  span holds the current value and whose hover span holds \<open>Previous: {previous}\<close>.
\<close>

datatype node = Text string | DiffGroup string string

definition renderDiffValue :: "string \<Rightarrow> string option \<Rightarrow> node" where
  "renderDiffValue cur prev =
     (case prev of
        None \<Rightarrow> Text cur
      | Some p \<Rightarrow> if p = [] \<or> cur = p then Text cur else DiffGroup cur p)"

section \<open>The cells of one table row\<close>

record cell =
  className :: string
  child :: node

definition prevState :: "device_data \<Rightarrow> string option" where
  "prevState d = map_option (\<lambda>p. network_data.state (network_data p)) (previous d)"

definition prevRssi :: "device_data \<Rightarrow> string option" where
  "prevRssi d = map_option (\<lambda>p. rssi (network_data p)) (previous d)"

definition curHealthRate :: "device_data \<Rightarrow> string option" where
  "curHealthRate d = map_option overallHealthRate (health_data (current d))"

definition prevHealthRate :: "device_data \<Rightarrow> string option" where
  "prevHealthRate d =
     (case previous d of None \<Rightarrow> None
      | Some p \<Rightarrow> map_option overallHealthRate (health_data p))"

definition diffClass :: "diff_style \<Rightarrow> string" where
  "diffClass s = ''px-6 py-4 whitespace-nowrap text-sm '' @ template (backgroundColor s)"

definition stateCell :: "device_data \<Rightarrow> cell" where
  "stateCell d =
     \<lparr>className =
        diffClass (getDiffStyle (Some (network_data.state (network_data (current d)))) (prevState d)),
      child = renderDiffValue (network_data.state (network_data (current d))) (prevState d)\<rparr>"

text \<open>
  The device-name cell: \<open>{device.current.health_data?.deviceName}\<close>; an undefined child
  (\<open>None\<close>) renders nothing.
\<close>

record plain_cell =
  plainClass :: string
  plainText :: "string option"

definition nameCell :: "device_data \<Rightarrow> plain_cell" where
  "nameCell d =
     \<lparr>plainClass = ''px-6 py-4 whitespace-nowrap text-sm text-gray-900'',
      plainText = map_option deviceName (health_data (current d))\<rparr>"

definition ipCell :: "device_data \<Rightarrow> cell" where
  "ipCell d =
     \<lparr>className = ''px-6 py-4 whitespace-nowrap text-sm text-gray-500'',
      child = Text (ip (network_data (current d)))\<rparr>"

definition rssiCell :: "device_data \<Rightarrow> cell" where
  "rssiCell d =
     \<lparr>className = diffClass (getDiffStyle (Some (rssi (network_data (current d)))) (prevRssi d)),
      child = renderDiffValue (rssi (network_data (current d))) (prevRssi d)\<rparr>"

definition healthCell :: "device_data \<Rightarrow> cell" where
  "healthCell d =
     \<lparr>className = diffClass (getDiffStyle (curHealthRate d) (prevHealthRate d)),
      child = renderDiffValue (template (curHealthRate d) @ ''%'')
                (js_and (prevHealthRate d) (Some (template (prevHealthRate d) @ ''%'')))\<rparr>"

text \<open>The current value a rendered node shows, and the previous value if it shows one.\<close>

fun shownCurrent :: "node \<Rightarrow> string" where
  "shownCurrent (Text s) = s"
| "shownCurrent (DiffGroup c p) = c"

fun shownPrevious :: "node \<Rightarrow> string option" where
  "shownPrevious (Text s) = None"
| "shownPrevious (DiffGroup c p) = Some p"

section \<open>The status cell: crash details and the history block\<close>

text \<open>
  One line of the history block. The first component is the entry's timestamp as handed
  to \<open>new Date(...).toLocaleString()\<close> (the locale's formatting is the browser's),
  the second the entry's state.
\<close>

datatype history_line = HistoryLine string string

definition historyLine :: "lighting_entry \<Rightarrow> history_line" where
  "historyLine e = HistoryLine (lighting_entry.timestamp e) (lighting_entry.state e)"

text \<open>
  \<open>device.lighting_history && device.current.network_data.state !== 'found' && (...)\<close>:
  an array, even an empty one, is truthy; \<open>slice(0, 5)\<close> is \<open>take 5\<close>.
\<close>

definition historyBlock :: "device_data \<Rightarrow> history_line list option" where
  "historyBlock d =
     (case lighting_history d of
        None \<Rightarrow> None
      | Some h \<Rightarrow>
          if network_data.state (network_data (current d)) \<noteq> ''found''
          then Some (map historyLine (take 5 h))
          else None)"

text \<open>
  One crash box of \<open>CrashDetails\<close>: the two text lines and the string that the button's
  click handler assigns to \<open>modal.innerHTML\<close>.
\<close>

record crash_box =
  processLine :: string
  timeLine :: string
  modalInnerHTML :: string

definition crashBox :: "crash \<Rightarrow> crash_box" where
  "crashBox c =
     \<lparr>processLine = ''Process: '' @ process c,
      timeLine = ''Time: '' @ crash.timestamp c,
      modalInnerHTML = ''<pre>'' @ content c @ ''</pre>''\<rparr>"

definition CrashDetails :: "crash list option \<Rightarrow> crash_box list option" where
  "CrashDetails crashes =
     (case crashes of
        None \<Rightarrow> None
      | Some cs \<Rightarrow> if length cs = 0 then None else Some (map crashBox cs))"

record status_cell =
  reasonText :: "string option"
  crashDetails :: "crash_box list option"
  history :: "history_line list option"

definition statusCell :: "device_data \<Rightarrow> status_cell" where
  "statusCell d =
     \<lparr>reasonText = map_option reason (health_data (current d)),
      crashDetails =
        (case related_crashes d of None \<Rightarrow> None | Some cs \<Rightarrow> CrashDetails (Some cs)),
      history = historyBlock d\<rparr>"

section \<open>filteredDevices\<close>

text \<open>
  \<open>toLowerCase\<close> on the ASCII letters (the strings of this model are byte strings) and
  \<open>String.prototype.includes\<close>, the test for a contiguous substring.
\<close>

definition lowerChar :: "char \<Rightarrow> char" where
  "lowerChar c =
     (let n = (of_char c :: nat) in if 65 \<le> n \<and> n \<le> 90 then char_of (n + 32) else c)"

definition toLowerCase :: "string \<Rightarrow> string" where
  "toLowerCase s = map lowerChar s"

fun startsWith :: "string \<Rightarrow> string \<Rightarrow> bool" where
  "startsWith s [] = True"
| "startsWith [] (c # cs) = False"
| "startsWith (x # xs) (c # cs) = (x = c \<and> startsWith xs cs)"

fun includes_str :: "string \<Rightarrow> string \<Rightarrow> bool" where
  "includes_str [] t = (t = [])"
| "includes_str (x # xs) t = (startsWith (x # xs) t \<or> includes_str xs t)"

datatype sort_direction = Asc | Desc

record table_state =
  devices :: "device_data list"
  loading :: bool
  stateFilter :: string
  nameFilter :: string
  sortField :: string
  sortDirection :: sort_direction

definition matchesState :: "table_state \<Rightarrow> device_data \<Rightarrow> bool" where
  "matchesState st d =
     (stateFilter st = [] \<or>
      includes_str (toLowerCase (network_data.state (network_data (current d))))
               (toLowerCase (stateFilter st)))"

text \<open>
  \<open>!nameFilter || device.current.health_data?.deviceName.toLowerCase().includes(...)\<close>:
  with \<open>health_data\<close> undefined the optional chain is \<open>undefined\<close> as a whole
  (\<open>None\<close> here), otherwise a boolean.
\<close>

definition matchesName :: "table_state \<Rightarrow> device_data \<Rightarrow> bool option" where
  "matchesName st d =
     (if nameFilter st = [] then Some True
      else map_option (\<lambda>h. includes_str (toLowerCase (deviceName h)) (toLowerCase (nameFilter st)))
             (health_data (current d)))"

text \<open>\<open>filter\<close> keeps a device when \<open>matchesState && matchesName\<close> is truthy.\<close>

definition filteredDevices :: "table_state \<Rightarrow> device_data list" where
  "filteredDevices st =
     filter (\<lambda>d. matchesState st d \<and> matchesName st d = Some True) (devices st)"

section \<open>The page: project and capture selection\<close>

text \<open>
  A JavaScript number that holds an id: an integer or \<open>NaN\<close> (ids stay far below the
  range where a double stops being exact).
\<close>

datatype jsnum = NaN | Num int

text \<open>
  \<open>parseInt(s)\<close> without a radix: leading white space, an optional sign, an optional
  \<open>0x\<close> prefix, then the longest run of digits of the radix; \<open>NaN\<close> without a digit.
\<close>

definition isSpace :: "char \<Rightarrow> bool" where
  "isSpace c = ((of_char c :: nat) \<in> {9, 10, 11, 12, 13, 32})"

definition digitVal :: "char \<Rightarrow> nat option" where
  "digitVal c =
     (let n = (of_char c :: nat) in
      if 48 \<le> n \<and> n \<le> 57 then Some (n - 48)
      else if 97 \<le> n \<and> n \<le> 122 then Some (n - 87)
      else if 65 \<le> n \<and> n \<le> 90 then Some (n - 55)
      else None)"

fun parseDigits :: "nat \<Rightarrow> string \<Rightarrow> int option \<Rightarrow> int option" where
  "parseDigits r [] acc = acc"
| "parseDigits r (c # cs) acc =
     (case digitVal c of
        None \<Rightarrow> acc
      | Some v \<Rightarrow>
          if v < r
          then parseDigits r cs (Some (int r * (case acc of None \<Rightarrow> 0 | Some a \<Rightarrow> a) + int v))
          else acc)"

definition parseInt :: "string \<Rightarrow> jsnum" where
  "parseInt s =
     (let t = dropWhile isSpace s;
          neg = (case t of [] \<Rightarrow> False | c # _ \<Rightarrow> c = CHR ''-'');
          u = (case t of [] \<Rightarrow> [] | c # cs \<Rightarrow> if c = CHR ''-'' \<or> c = CHR ''+'' then cs else t);
          hex = (startsWith u ''0x'' \<or> startsWith u ''0X'')
      in case parseDigits (if hex then 16 else 10) (if hex then drop 2 u else u) None of
           None \<Rightarrow> NaN
         | Some n \<Rightarrow> Num (if neg then - n else n))"

text \<open>Truthiness of a value that is a number or \<open>null\<close>: \<open>null\<close>, \<open>NaN\<close> and \<open>0\<close> are falsy.\<close>

definition numTruthy :: "jsnum option \<Rightarrow> bool" where
  "numTruthy v = (case v of None \<Rightarrow> False | Some NaN \<Rightarrow> False | Some (Num n) \<Rightarrow> n \<noteq> 0)"

text \<open>The state of \<open>Home\<close> (page.tsx); \<open>None\<close> is \<open>null\<close>.\<close>

record page_state =
  selectedProject :: "jsnum option"
  selectedCapture :: "jsnum option"
  refreshTrigger :: int

definition initialPage :: page_state where
  "initialPage = \<lparr>selectedProject = None, selectedCapture = None, refreshTrigger = 0\<rparr>"

text \<open>
  The \<open>onChange\<close> handler of the project \<open>select\<close>, with \<open>onProjectSelect\<close> and
  \<open>onCaptureSelect\<close> bound to \<open>setSelectedProject\<close> and \<open>setSelectedCapture\<close> as
  \<open>Home\<close> passes them. Its argument is \<open>e.target.value\<close>. Both updates are made in the
  one handler, so they reach the same render.
\<close>

definition onChange :: "string \<Rightarrow> page_state \<Rightarrow> page_state" where
  "onChange v st =
     st\<lparr>selectedProject := (if v \<noteq> [] then Some (parseInt v) else None),
        selectedCapture := None\<rparr>"

definition handleUploadSuccess :: "jsnum \<Rightarrow> string \<Rightarrow> page_state \<Rightarrow> page_state" where
  "handleUploadSuccess projectId projectName st =
     st\<lparr>refreshTrigger := refreshTrigger st + 1,
        selectedProject := Some projectId,
        selectedCapture := None\<rparr>"

text \<open>The effect of \<open>ProjectSelector\<close> that selects \<open>selectedProjectId\<close> again when it is truthy.\<close>

definition autoSelect :: "page_state \<Rightarrow> page_state" where
  "autoSelect st =
     (if numTruthy (selectedProject st) then st\<lparr>selectedProject := selectedProject st\<rparr> else st)"

datatype page_event = SelectChange string | UploadSuccess jsnum string | AutoSelect

fun page_step :: "page_event \<Rightarrow> page_state \<Rightarrow> page_state" where
  "page_step (SelectChange v) st = onChange v st"
| "page_step (UploadSuccess pid name) st = handleUploadSuccess pid name st"
| "page_step AutoSelect st = autoSelect st"

inductive reachable :: "page_state \<Rightarrow> bool" where
  reach_init: "reachable initialPage"
| reach_step: "reachable st \<Longrightarrow> reachable (page_step e st)"

text \<open>
  The request of \<open>DeviceTable\<close>: the table is mounted when \<open>selectedProject\<close> is truthy,
  and its URL carries \<open>?capture_id=\<close> when \<open>captureId\<close> is truthy.
\<close>

record device_request =
  req_project :: jsnum
  req_capture :: "jsnum option"

definition deviceRequest :: "page_state \<Rightarrow> device_request option" where
  "deviceRequest st =
     (case selectedProject st of
        None \<Rightarrow> None
      | Some p \<Rightarrow>
          if numTruthy (Some p)
          then Some \<lparr>req_project = p,
                     req_capture = (if numTruthy (selectedCapture st) then selectedCapture st else None)\<rparr>
          else None)"

section \<open>The uploader's drop handler\<close>

record upload_file =
  file_name :: string
  file_type :: string

text \<open>
  \<open>onDrop\<close> receives the files that the dropzone accepted and posts the first one, if
  there is one; the result is the file appended to the form data.
\<close>

definition onDrop :: "upload_file list \<Rightarrow> upload_file option" where
  "onDrop acceptedFiles = (case acceptedFiles of [] \<Rightarrow> None | file # _ \<Rightarrow> Some file)"

section \<open>Example data\<close>

definition net_found :: network_data where
  "net_found = \<lparr>ip = ''10.0.0.5'', state = ''found'', rssi = ''-40'', devicetype = ''dimmer''\<rparr>"

definition net_missing :: network_data where
  "net_missing = \<lparr>ip = ''10.0.0.9'', state = ''missing'', rssi = ''-70'', devicetype = ''dimmer''\<rparr>"

definition snap_c1 :: snapshot where
  "snap_c1 =
     \<lparr>network_data = net_found,
      health_data = Some \<lparr>deviceName = ''Kitchen'', reason = ''ok'', overallHealthRate = ''98''\<rparr>,
      capture_timestamp = ''2024-01-01T00:00:00''\<rparr>"

definition snap_c2 :: snapshot where
  "snap_c2 =
     \<lparr>network_data = net_missing,
      health_data = Some \<lparr>deviceName = ''Kitchen'', reason = ''offline'', overallHealthRate = ''N/A''\<rparr>,
      capture_timestamp = ''2024-01-02T00:00:00''\<rparr>"

definition snap_blank :: snapshot where
  "snap_blank =
     \<lparr>network_data = \<lparr>ip = ''10.0.0.9'', state = [], rssi = [], devicetype = ''dimmer''\<rparr>,
      health_data = None,
      capture_timestamp = ''2024-01-01T00:00:00''\<rparr>"

definition snap_bare :: snapshot where
  "snap_bare =
     \<lparr>network_data = net_missing, health_data = None,
      capture_timestamp = ''2024-01-02T00:00:00''\<rparr>"

definition hist6 :: "lighting_entry list" where
  "hist6 =
     [\<lparr>lighting_entry.state = ''on'', lighting_entry.timestamp = ''2024-01-01T01:00:00''\<rparr>,
      \<lparr>lighting_entry.state = ''off'', lighting_entry.timestamp = ''2024-01-01T02:00:00''\<rparr>,
      \<lparr>lighting_entry.state = ''on'', lighting_entry.timestamp = ''2024-01-01T03:00:00''\<rparr>,
      \<lparr>lighting_entry.state = ''off'', lighting_entry.timestamp = ''2024-01-01T04:00:00''\<rparr>,
      \<lparr>lighting_entry.state = ''on'', lighting_entry.timestamp = ''2024-01-01T05:00:00''\<rparr>,
      \<lparr>lighting_entry.state = ''off'', lighting_entry.timestamp = ''2024-01-01T06:00:00''\<rparr>]"

definition mkDevice ::
  "snapshot \<Rightarrow> snapshot option \<Rightarrow> lighting_entry list option \<Rightarrow> device_data" where
  "mkDevice cur prev hist =
     \<lparr>id_num = 1, device_id = ''dev-1'', current = cur, previous = prev,
      related_crashes = None, lighting_history = hist,
      system_stats = None, wifi_data = None\<rparr>"

definition crash_cpp :: crash where
  "crash_cpp =
     \<lparr>process = ''lightd'', timestamp = ''2024-01-02T00:00:00'',
      content = ''std::vector<int> index 7 &amp; size 3''\<rparr>"

definition page_c9 :: "string \<Rightarrow> table_state" where
  "page_c9 name =
     \<lparr>devices = [mkDevice snap_bare None None, mkDevice snap_c2 None None], loading = False,
      stateFilter = ''MISS'', nameFilter = name, sortField = ''state'', sortDirection = Asc\<rparr>"

definition page_with_capture :: page_state where
  "page_with_capture =
     \<lparr>selectedProject = Some (Num 2), selectedCapture = Some (Num 9), refreshTrigger = 0\<rparr>"

section \<open>Properties of the diff rendering\<close>

lemmas cell_defs = stateCell_def rssiCell_def healthCell_def ipCell_def diffClass_def
  getDiffStyle_def renderDiffValue_def prevState_def prevRssi_def curHealthRate_def
  prevHealthRate_def truthy_def template_def js_and_def

lemmas example_defs = mkDevice_def snap_c1_def snap_c2_def snap_bare_def snap_blank_def
  net_found_def net_missing_def hist6_def

text \<open>
  C1, amended. The table has no \<open>appeared\<close> classification. A device without a previous
  snapshot is rendered, in each of the three diffed cells (state, rssi, health rate),
  exactly as the same device whose previous snapshot equals the current one: the plain
  current value, with the empty diff style.
\<close>

theorem absent_previous_rendered_as_unchanged:
  "previous d = None \<Longrightarrow>
     stateCell d = stateCell (d\<lparr>previous := Some (current d)\<rparr>) \<and>
     rssiCell d = rssiCell (d\<lparr>previous := Some (current d)\<rparr>) \<and>
     healthCell d = healthCell (d\<lparr>previous := Some (current d)\<rparr>) \<and>
     child (stateCell d) = Text (network_data.state (network_data (current d))) \<and>
     child (rssiCell d) = Text (rssi (network_data (current d))) \<and>
     getDiffStyle (Some (network_data.state (network_data (current d)))) (prevState d)
       = \<lparr>backgroundColor = None, position = None\<rparr>"
  by (simp add: cell_defs split: option.splits)

theorem absent_previous_rendered_as_unchanged_witness:
  "previous (mkDevice snap_c2 None None) = None \<and>
   stateCell (mkDevice snap_c2 None None) = stateCell (mkDevice snap_c2 (Some snap_c2) None) \<and>
   rssiCell (mkDevice snap_c2 None None) = rssiCell (mkDevice snap_c2 (Some snap_c2) None) \<and>
   healthCell (mkDevice snap_c2 None None) = healthCell (mkDevice snap_c2 (Some snap_c2) None) \<and>
   child (stateCell (mkDevice snap_c2 None None)) = Text ''missing''"
  using absent_previous_rendered_as_unchanged [of "mkDevice snap_c2 None None"]
  by (simp add: example_defs cell_defs)

text \<open>
  As written, the claim asks that a device with a current state and no previous snapshot
  is not rendered like an unchanged one. The state cell of the device first seen as
  \<open>missing\<close> and that of the device that was \<open>missing\<close> before are the same cell.
\<close>

theorem appeared_not_distinguished_counterexample:
  "stateCell (mkDevice snap_c2 None None) = stateCell (mkDevice snap_c2 (Some snap_c2) None)"
  by (simp add: example_defs cell_defs)

text \<open>
  C4, amended. For state, rssi and the health rate: when the previous snapshot is present,
  its value is a non-empty string and the current value differs from it, the cell carries
  the diff colour (green when the current value is \<open>found\<close>, red otherwise) and shows the
  current value together with the previous one; the health rate shows both with \<open>%\<close>
  appended. The ip, device name and reason cells show the current value only: each holds
  the value of the current snapshot and is the same with any previous snapshot or none.
\<close>

theorem changed_field_shows_both_values:
  assumes "previous d = Some p"
  shows
    "(network_data.state (network_data p) \<noteq> [] \<and>
      network_data.state (network_data (current d)) \<noteq> network_data.state (network_data p) \<longrightarrow>
        stateCell d =
          \<lparr>className = ''px-6 py-4 whitespace-nowrap text-sm '' @
             (if network_data.state (network_data (current d)) = ''found''
              then ''bg-green-100'' else ''bg-red-100''),
           child = DiffGroup (network_data.state (network_data (current d)))
                     (network_data.state (network_data p))\<rparr>) \<and>
     (rssi (network_data p) \<noteq> [] \<and>
      rssi (network_data (current d)) \<noteq> rssi (network_data p) \<longrightarrow>
        rssiCell d =
          \<lparr>className = ''px-6 py-4 whitespace-nowrap text-sm '' @
             (if rssi (network_data (current d)) = ''found''
              then ''bg-green-100'' else ''bg-red-100''),
           child = DiffGroup (rssi (network_data (current d))) (rssi (network_data p))\<rparr>) \<and>
     (health_data (current d) = Some hc \<and> health_data p = Some hp \<and>
      overallHealthRate hp \<noteq> [] \<and> overallHealthRate hc \<noteq> overallHealthRate hp \<longrightarrow>
        healthCell d =
          \<lparr>className = ''px-6 py-4 whitespace-nowrap text-sm '' @
             (if overallHealthRate hc = ''found'' then ''bg-green-100'' else ''bg-red-100''),
           child = DiffGroup (overallHealthRate hc @ ''%'') (overallHealthRate hp @ ''%'')\<rparr>) \<and>
     ipCell d =
       \<lparr>className = ''px-6 py-4 whitespace-nowrap text-sm text-gray-500'',
        child = Text (ip (network_data (current d)))\<rparr> \<and>
     nameCell d =
       \<lparr>plainClass = ''px-6 py-4 whitespace-nowrap text-sm text-gray-900'',
        plainText = map_option deviceName (health_data (current d))\<rparr> \<and>
     reasonText (statusCell d) = map_option reason (health_data (current d)) \<and>
     ipCell (d\<lparr>previous := q\<rparr>) = ipCell d \<and>
     nameCell (d\<lparr>previous := q\<rparr>) = nameCell d \<and>
     reasonText (statusCell (d\<lparr>previous := q\<rparr>)) = reasonText (statusCell d)"
  using assms by (simp add: cell_defs nameCell_def statusCell_def)

text \<open>The scenario of the specification: state \<open>found\<close> to \<open>missing\<close>, rssi \<open>-40\<close> to \<open>-70\<close>.\<close>

theorem changed_field_shows_both_values_witness:
  "previous (mkDevice snap_c2 (Some snap_c1) None) = Some snap_c1 \<and>
   stateCell (mkDevice snap_c2 (Some snap_c1) None) =
     \<lparr>className = ''px-6 py-4 whitespace-nowrap text-sm bg-red-100'',
      child = DiffGroup ''missing'' ''found''\<rparr> \<and>
   rssiCell (mkDevice snap_c2 (Some snap_c1) None) =
     \<lparr>className = ''px-6 py-4 whitespace-nowrap text-sm bg-red-100'',
      child = DiffGroup ''-70'' ''-40''\<rparr> \<and>
   healthCell (mkDevice snap_c2 (Some snap_c1) None) =
     \<lparr>className = ''px-6 py-4 whitespace-nowrap text-sm bg-red-100'',
      child = DiffGroup ''N/A%'' ''98%''\<rparr> \<and>
   child (ipCell (mkDevice snap_c2 (Some snap_c1) None)) = Text ''10.0.0.9'' \<and>
   plainText (nameCell (mkDevice snap_c2 (Some snap_c1) None)) = Some ''Kitchen'' \<and>
   reasonText (statusCell (mkDevice snap_c2 (Some snap_c1) None)) = Some ''offline'' \<and>
   ipCell ((mkDevice snap_c2 (Some snap_c1) None)\<lparr>previous := None\<rparr>)
     = ipCell (mkDevice snap_c2 (Some snap_c1) None) \<and>
   nameCell ((mkDevice snap_c2 (Some snap_c1) None)\<lparr>previous := None\<rparr>)
     = nameCell (mkDevice snap_c2 (Some snap_c1) None) \<and>
   reasonText (statusCell ((mkDevice snap_c2 (Some snap_c1) None)\<lparr>previous := None\<rparr>))
     = reasonText (statusCell (mkDevice snap_c2 (Some snap_c1) None))"
  using changed_field_shows_both_values
    [of "mkDevice snap_c2 (Some snap_c1) None" snap_c1
        "\<lparr>deviceName = ''Kitchen'', reason = ''offline'', overallHealthRate = ''N/A''\<rparr>"
        "\<lparr>deviceName = ''Kitchen'', reason = ''ok'', overallHealthRate = ''98''\<rparr>" None]
  by (simp add: example_defs)

text \<open>
  As written, the claim covers every tracked field and every present previous snapshot.
  The ip of the device changes between the two captures and the ip cell shows the current
  address alone; and against a previous snapshot whose state is the empty string, the state
  cell of a device now \<open>missing\<close> is the plain text without a diff colour.
\<close>

theorem changed_field_not_surfaced_counterexample:
  "previous (mkDevice snap_c2 (Some snap_c1) None) = Some snap_c1 \<and>
   ip (network_data (current (mkDevice snap_c2 (Some snap_c1) None))) \<noteq> ip (network_data snap_c1) \<and>
   shownPrevious (child (ipCell (mkDevice snap_c2 (Some snap_c1) None))) = None \<and>
   previous (mkDevice snap_c2 (Some snap_blank) None) = Some snap_blank \<and>
   network_data.state (network_data (current (mkDevice snap_c2 (Some snap_blank) None)))
     \<noteq> network_data.state (network_data snap_blank) \<and>
   stateCell (mkDevice snap_c2 (Some snap_blank) None) =
     \<lparr>className = ''px-6 py-4 whitespace-nowrap text-sm undefined'', child = Text ''missing''\<rparr>"
  by (simp add: example_defs cell_defs)

text \<open>
  C6, amended. The health cell appends \<open>%\<close> to the current rate whenever the current
  snapshot has health data, whatever the rate's text is; a previous rate is shown only when
  it is present and non-empty, and then with \<open>%\<close> appended as well.
\<close>

theorem health_rate_percent_suffix:
  "(health_data (current d) = Some h \<longrightarrow>
      shownCurrent (child (healthCell d)) = overallHealthRate h @ ''%'') \<and>
   (shownPrevious (child (healthCell d)) = Some q \<longrightarrow>
      map_option (\<lambda>r. r @ ''%'') (prevHealthRate d) = Some q \<and> prevHealthRate d \<noteq> Some [])"
  by (auto simp: healthCell_def renderDiffValue_def curHealthRate_def js_and_def truthy_def
      template_def split: option.splits if_splits)

theorem health_rate_percent_suffix_witness:
  "health_data (current (mkDevice snap_c2 (Some snap_c1) None)) =
     Some \<lparr>deviceName = ''Kitchen'', reason = ''offline'', overallHealthRate = ''N/A''\<rparr> \<and>
   shownCurrent (child (healthCell (mkDevice snap_c2 (Some snap_c1) None))) = ''N/A%'' \<and>
   shownPrevious (child (healthCell (mkDevice snap_c2 (Some snap_c1) None))) = Some ''98%'' \<and>
   prevHealthRate (mkDevice snap_c2 (Some snap_c1) None) = Some ''98''"
  using health_rate_percent_suffix
    [of "mkDevice snap_c2 (Some snap_c1) None"
        "\<lparr>deviceName = ''Kitchen'', reason = ''offline'', overallHealthRate = ''N/A''\<rparr>" "''98%''"]
  by (simp add: example_defs cell_defs)

text \<open>
  As written, a rate that is not a number is shown without \<open>%\<close>. The rate \<open>N/A\<close> is
  shown as \<open>N/A%\<close>.
\<close>

theorem non_numeric_rate_gets_percent_counterexample:
  "health_data (current (mkDevice snap_c2 None None)) =
     Some \<lparr>deviceName = ''Kitchen'', reason = ''offline'', overallHealthRate = ''N/A''\<rparr> \<and>
   shownCurrent (child (healthCell (mkDevice snap_c2 None None))) = ''N/A%'' \<and>
   shownCurrent (child (healthCell (mkDevice snap_c2 None None))) \<noteq> ''N/A''"
  by (simp add: example_defs cell_defs)

section \<open>Properties of the status cell\<close>

text \<open>
  C2, amended. The history block is surfaced exactly when the device has a
  \<open>lighting_history\<close> and its current state is not \<open>found\<close>; the previous snapshot
  plays no part, so the block is the same with any previous snapshot or with none.
\<close>

theorem history_block_iff_current_not_found:
  "(historyBlock d \<noteq> None) =
     (lighting_history d \<noteq> None \<and> network_data.state (network_data (current d)) \<noteq> ''found'') \<and>
   historyBlock (d\<lparr>previous := p\<rparr>) = historyBlock d"
  by (simp add: historyBlock_def split: option.splits)

theorem history_block_iff_current_not_found_witness:
  "historyBlock (mkDevice snap_c2 None (Some [])) \<noteq> None \<and>
   historyBlock (mkDevice snap_c2 (Some snap_c1) (Some [])) = historyBlock (mkDevice snap_c2 None (Some [])) \<and>
   historyBlock (mkDevice snap_c1 None (Some hist6)) = None"
  using history_block_iff_current_not_found [of "mkDevice snap_c2 None (Some [])" "Some snap_c1"]
    history_block_iff_current_not_found [of "mkDevice snap_c1 None (Some hist6)" None]
  by (simp add: example_defs)

text \<open>
  As written, the block appears if and only if the previous state was \<open>found\<close> and the
  current one is not. A device that is \<open>missing\<close> and has no previous snapshot gets the
  block.
\<close>

theorem history_without_transition_counterexample:
  "\<not> ((historyBlock (mkDevice snap_c2 None (Some [])) \<noteq> None) =
       (prevState (mkDevice snap_c2 None (Some [])) = Some ''found'' \<and>
        network_data.state (network_data (current (mkDevice snap_c2 None (Some [])))) \<noteq> ''found''))"
  by (simp add: example_defs historyBlock_def prevState_def)

text \<open>
  C3, amended. A surfaced history block has at most five lines, and they are the first
  five entries of \<open>lighting_history\<close> (all of them when there are fewer), in the order
  in which the sequence is stored.
\<close>

theorem history_block_first_five:
  "historyBlock d = Some ls \<Longrightarrow>
     length ls \<le> 5 \<and>
     map_option (\<lambda>h. map historyLine (take 5 h)) (lighting_history d) = Some ls"
  by (auto simp: historyBlock_def split: option.splits if_splits)

theorem history_block_first_five_witness:
  "historyBlock (mkDevice snap_c2 (Some snap_c1) (Some hist6)) = Some (map historyLine (take 5 hist6)) \<and>
   length (map historyLine (take 5 hist6)) \<le> 5 \<and>
   map_option (\<lambda>h. map historyLine (take 5 h))
     (lighting_history (mkDevice snap_c2 (Some snap_c1) (Some hist6))) = Some (map historyLine (take 5 hist6))"
  using history_block_first_five [of "mkDevice snap_c2 (Some snap_c1) (Some hist6)" "map historyLine (take 5 hist6)"]
  by (simp add: example_defs historyBlock_def)

text \<open>
  As written, the lines are the last five entries of the sequence. With six entries the
  block is neither the last five in stored order nor the last five newest first.
\<close>

theorem history_last_five_counterexample:
  "historyBlock (mkDevice snap_c2 (Some snap_c1) (Some hist6))
     \<noteq> Some (map historyLine (drop (length hist6 - 5) hist6)) \<and>
   historyBlock (mkDevice snap_c2 (Some snap_c1) (Some hist6))
     \<noteq> Some (map historyLine (rev (drop (length hist6 - 5) hist6)))"
  by (simp add: example_defs historyBlock_def historyLine_def)

text \<open>
  C5. The click handler builds the modal's markup by splicing the crash content, as it is,
  between \<open><pre>\<close> and \<open></pre>\<close> and assigns it to \<open>innerHTML\<close>: for a content with
  \<open><int>\<close> and \<open>&amp;\<close> the markup holds a tag and a character reference, which an HTML
  parser reads as such and does not display as text.
\<close>

theorem crash_modal_markup_not_escaped:
  "map_option (map modalInnerHTML) (CrashDetails (Some [crash_cpp]))
     = Some [''<pre>std::vector<int> index 7 &amp; size 3</pre>'']"
  by (simp add: CrashDetails_def crashBox_def crash_cpp_def)

section \<open>Properties of the filter\<close>

text \<open>
  C9. A device whose current snapshot has no \<open>health_data\<close> is excluded from
  \<open>filteredDevices\<close> whenever the name filter is non-empty; with an empty name filter
  it is listed exactly when it passes the state filter.
\<close>

theorem absent_health_data_name_filter:
  "health_data (current d) = None \<Longrightarrow>
     (nameFilter st \<noteq> [] \<longrightarrow> d \<notin> set (filteredDevices st)) \<and>
     (nameFilter st = [] \<longrightarrow>
        (d \<in> set (filteredDevices st)) = (d \<in> set (devices st) \<and> matchesState st d))"
  by (auto simp: filteredDevices_def matchesName_def)

theorem absent_health_data_name_filter_witness:
  "health_data (current (mkDevice snap_bare None None)) = None \<and>
   nameFilter (page_c9 ''kit'') \<noteq> [] \<and>
   mkDevice snap_bare None None \<notin> set (filteredDevices (page_c9 ''kit'')) \<and>
   nameFilter (page_c9 []) = [] \<and>
   mkDevice snap_bare None None \<in> set (filteredDevices (page_c9 []))"
proof -
  have lower1: "toLowerCase ''MISS'' = ''miss''"
    by code_simp
  have lower2: "toLowerCase ''missing'' = ''missing''"
    by code_simp
  show ?thesis
    using absent_health_data_name_filter [of "mkDevice snap_bare None None" "page_c9 ''kit''"]
      absent_health_data_name_filter [of "mkDevice snap_bare None None" "page_c9 []"]
    by (simp add: page_c9_def mkDevice_def snap_bare_def net_missing_def matchesState_def
        lower1 lower2)
qed

section \<open>Properties of the page state\<close>

lemma reachable_no_capture: "reachable st \<Longrightarrow> selectedCapture st = None"
proof (induction rule: reachable.induct)
  case reach_init
  show ?case by (simp add: initialPage_def)
next
  case (reach_step st e)
  then show ?case
    by (cases e) (simp_all add: onChange_def handleUploadSuccess_def autoSelect_def)
qed

lemma request_without_capture:
  "selectedCapture s = None \<Longrightarrow> deviceRequest s = Some q \<Longrightarrow> req_capture q = None"
  by (auto simp: deviceRequest_def numTruthy_def split: option.splits if_splits)

text \<open>
  C10. Choosing an entry of the project selector, the placeholder included, sets the
  capture selection to none in the same update, whatever it was before; the request of the
  device table made from the resulting state carries no capture id, and so does every
  request made from a state the page can reach.
\<close>

theorem project_change_resets_capture:
  "selectedCapture (onChange v st) = None \<and>
   (deviceRequest (onChange v st) = Some r \<longrightarrow> req_capture r = None) \<and>
   (reachable st' \<and> deviceRequest st' = Some r' \<longrightarrow> req_capture r' = None)"
proof -
  have a: "selectedCapture (onChange v st) = None"
    by (simp add: onChange_def)
  show ?thesis
    using a request_without_capture [of "onChange v st" r] request_without_capture [of st' r']
      reachable_no_capture [of st']
    by simp
qed

theorem project_change_resets_capture_witness:
  "selectedCapture page_with_capture = Some (Num 9) \<and>
   selectedCapture (onChange ''3'' page_with_capture) = None \<and>
   selectedCapture (onChange [] page_with_capture) = None \<and>
   deviceRequest (onChange ''3'' page_with_capture)
     = Some \<lparr>req_project = Num 3, req_capture = None\<rparr> \<and>
   reachable (page_step (SelectChange ''3'') initialPage) \<and>
   deviceRequest (page_step (SelectChange ''3'') initialPage)
     = Some \<lparr>req_project = Num 3, req_capture = None\<rparr>"
proof -
  have p: "parseInt ''3'' = Num 3"
    by (simp add: parseInt_def isSpace_def digitVal_def)
  have r: "reachable (page_step (SelectChange ''3'') initialPage)"
    by (rule reach_step [OF reach_init])
  show ?thesis
    using project_change_resets_capture
      [of "''3''" page_with_capture "\<lparr>req_project = Num 3, req_capture = None\<rparr>"
          "page_step (SelectChange ''3'') initialPage" "\<lparr>req_project = Num 3, req_capture = None\<rparr>"]
      r
    by (simp add: onChange_def deviceRequest_def numTruthy_def p initialPage_def
        page_with_capture_def)
qed

section \<open>The drop handler\<close>

text \<open>
  \<open>onDrop\<close> posts the first of the files the dropzone accepted and nothing else; which
  files are accepted under \<open>accept: {'application/gzip': ['.tgz']}\<close> is decided by the
  dropzone library.
\<close>

lemma onDrop_posts_first_accepted:
  "onDrop acceptedFiles = (if acceptedFiles = [] then None else Some (hd acceptedFiles))"
  by (simp add: onDrop_def split: list.splits)

end
